theory Spec2Isabelle
  imports Main
begin

section \<open>Data model of the Power VS image scope\<close>

text \<open>
  The embedding follows \<^verbatim>\<open>cloud/scope/powervs_image.go\<close>. A Go pointer is an
  \<open>option\<close> (\<open>None\<close> is the nil pointer), a Go \<^verbatim>\<open>error\<close> is the text it prints
  with \<^verbatim>\<open>%v\<close>, and a pair \<^verbatim>\<open>(value, error)\<close> returned by a call is a pair of
  options, since Go lets both be nil or both be set. Dereferencing nil panics; a
  computation that can panic returns a \<open>res\<close>.
\<close>

type_synonym error = string

datatype 'a res = Panic | Return 'a

text \<open>
  The records of the Power VS API (package \<^verbatim>\<open>models\<close> of the power-go-client), with the
  fields this file reads. Their field names carry the name of the Go type.
\<close>

record ImageReference =
  ImageReference_ImageID :: "string option"
  ImageReference_Name :: "string option"

record Images =
  Images_Images :: "ImageReference option list"

record models_Status =
  Status_State :: "string option"

record Job =
  Job_ID :: "string option"
  Job_Status :: "models_Status option"

record JobReference =
  JobReference_ID :: "string option"

record CreateCosImageImportJob =
  ImportImageName :: "string option"
  ImportBucketName :: "string option"
  ImportBucketAccess :: "string option"
  ImportRegion :: "string option"
  ImportImageFilename :: "string option"
  ImportStorageType :: string

text \<open>The managed resource \<^verbatim>\<open>infrav1beta1.IBMPowerVSImage\<close>: metadata, spec and status.\<close>

record ObjectMeta =
  Name :: string

record IBMPowerVSImageSpec =
  ServiceInstanceID :: string
  Bucket :: "string option"
  Object :: "string option"
  Region :: "string option"
  StorageType :: string

record IBMPowerVSImageStatus =
  Ready :: bool
  ImageID :: string
  ImageState :: string
  JobID :: string

record IBMPowerVSImage =
  ObjectMeta :: ObjectMeta
  Spec :: IBMPowerVSImageSpec
  Status :: IBMPowerVSImageStatus

text \<open>
  The interface \<^verbatim>\<open>powervs.PowerVS\<close>, as far as the scope calls it: what the remote
  service answers to each request. Within one call of a scope method every operation is
  requested at most once, so a function of the request's arguments is the general case.
\<close>

record PowerVS =
  GetAllImage :: "Images option \<times> error option"
  GetCosImages :: "string \<Rightarrow> Job option \<times> error option"
  CreateCosImage :: "CreateCosImageImportJob \<Rightarrow> JobReference option \<times> error option"
  DeleteImage_req :: "string \<Rightarrow> error option"
  DeleteJob_req :: "string \<Rightarrow> error option"

text \<open>The requests a scope method sends to the remote service, in order.\<close>

datatype call =
  CallGetAllImage
| CallGetCosImages string
| CallCreateCosImage CreateCosImageImportJob
| CallDeleteImage string
| CallDeleteJob string

text \<open>
  An event of the recorder: the kind (\<open>Warnf\<close> for a warning, \<open>Eventf\<close> for a normal
  event), the reason, the format string and the arguments to be formatted.
\<close>

datatype event =
  Warnf string string "string list"
| Eventf string string "string list"

text \<open>
  The scope: the client and the managed resource, as in the Go struct, and beside them
  what the methods leave behind outside the resource: the requests sent through the
  client, the events given to the recorder and the lines given to the logger.
\<close>

record PowerVSImageScope =
  IBMPowerVSClient :: PowerVS
  IBMPowerVSImage :: IBMPowerVSImage
  requests :: "call list"
  events :: "event list"
  logged :: "string list"

section \<open>Operations\<close>

text \<open>
  The methods of the scope that talk to the Power VS service or change the status. The
  constructor \<^verbatim>\<open>NewPowerVSImageScope\<close> and the persisting of the resource
  (\<^verbatim>\<open>PatchObject\<close>, \<^verbatim>\<open>Close\<close>) are not modelled; every scope below stands for one
  the constructor has returned, so its client and its resource are not nil. The events
  are recorded against the scope's resource, which is left out of the event.
\<close>

definition BucketAccess :: string where
  "BucketAccess = ''public''"

text \<open>
  Modelled from the spec: the helpers \<^verbatim>\<open>record.Warnf\<close> and \<^verbatim>\<open>record.Eventf\<close> of the
  package \<^verbatim>\<open>pkg/record\<close>, which is not part of the sources at hand. The spec describes
  the recorder as an append-only notification sink with a success and a warning
  operation, taking a reason code and a message, that never affects control flow.
\<close>

definition record_Warnf :: "string \<Rightarrow> string \<Rightarrow> string list \<Rightarrow> PowerVSImageScope \<Rightarrow> PowerVSImageScope" where
  "record_Warnf reason message args i = i\<lparr>events := events i @ [Warnf reason message args]\<rparr>"

definition record_Eventf :: "string \<Rightarrow> string \<Rightarrow> string list \<Rightarrow> PowerVSImageScope \<Rightarrow> PowerVSImageScope" where
  "record_Eventf reason message args i = i\<lparr>events := events i @ [Eventf reason message args]\<rparr>"

text \<open>The logger's \<^verbatim>\<open>Info\<close>, and the sending of a request.\<close>

definition Info :: "string \<Rightarrow> PowerVSImageScope \<Rightarrow> PowerVSImageScope" where
  "Info msg i = i\<lparr>logged := logged i @ [msg]\<rparr>"

definition send :: "call \<Rightarrow> PowerVSImageScope \<Rightarrow> PowerVSImageScope" where
  "send c i = i\<lparr>requests := requests i @ [c]\<rparr>"

text \<open>
  The loop of \<^verbatim>\<open>ensureImageUnique\<close> over \<^verbatim>\<open>images.Images\<close>: \<^verbatim>\<open>*img.Name\<close> panics on
  a nil entry and on a nil name; the first entry of that name is returned.
\<close>

fun scanImages :: "string \<Rightarrow> ImageReference option list \<Rightarrow> (ImageReference option \<times> error option) res" where
  "scanImages imageName [] = Return (None, None)"
| "scanImages imageName (None # rest) = Panic"
| "scanImages imageName (Some img # rest) =
     (case ImageReference_Name img of
        None \<Rightarrow> Panic
      | Some n \<Rightarrow> if n = imageName then Return (Some img, None) else scanImages imageName rest)"

definition ensureImageUnique ::
  "string \<Rightarrow> PowerVSImageScope \<Rightarrow> (ImageReference option \<times> error option) res \<times> PowerVSImageScope" where
  "ensureImageUnique imageName i =
     (let i1 = send CallGetAllImage i in
      case GetAllImage (IBMPowerVSClient i) of (images, err) \<Rightarrow>
        if err \<noteq> None then (Return (None, err), i1)
        else (case images of
                None \<Rightarrow> (Panic, i1)
              | Some imgs \<Rightarrow> (scanImages imageName (Images_Images imgs), i1)))"

definition GetImportJob :: "PowerVSImageScope \<Rightarrow> (Job option \<times> error option) \<times> PowerVSImageScope" where
  "GetImportJob i =
     (let sid = ServiceInstanceID (Spec (IBMPowerVSImage i)) in
      (GetCosImages (IBMPowerVSClient i) sid, send (CallGetCosImages sid) i))"

text \<open>
  Lines 179 to 196 of \<^verbatim>\<open>CreateImageCOSBucket\<close>: the request body and the creation of
  the import job. The Go function falls through to them when no import job was fetched
  and when the fetched job is completed or failed; \<open>i0\<close> is the scope the method was
  called on, \<open>i\<close> the scope with what was sent and recorded so far.
\<close>

definition submitImportJob ::
  "PowerVSImageScope \<Rightarrow> PowerVSImageScope \<Rightarrow>
     (ImageReference option \<times> JobReference option \<times> error option) res \<times> PowerVSImageScope" where
  "submitImportJob i0 i =
     (let s = Spec (IBMPowerVSImage i0);
          m = ObjectMeta (IBMPowerVSImage i0);
          body = \<lparr>ImportImageName = Some (Name m),
                  ImportBucketName = Bucket s,
                  ImportBucketAccess = Some BucketAccess,
                  ImportRegion = Region s,
                  ImportImageFilename = Object s,
                  ImportStorageType = StorageType s\<rparr>;
          i1 = send (CallCreateCosImage body) i in
      case CreateCosImage (IBMPowerVSClient i0) body of
        (jobRef, Some err) \<Rightarrow>
          (Return (None, None, Some err),
           record_Warnf ''FailedCreateImageImportJob'' ''Failed image import job creation - %v'' [err]
             (Info ''Unable to create new import job request'' i1))
      | (jobRef, None) \<Rightarrow>
          (let i2 = Info ''New import job request created'' i1 in
           case Option.bind jobRef JobReference_ID of
             None \<Rightarrow> (Panic, i2)
           | Some job_id \<Rightarrow>
               (Return (None, jobRef, None),
                record_Eventf ''SuccessfulCreateImageImportJob'' ''Created image import job %q''
                  [job_id] i2)))"

definition CreateImageCOSBucket ::
  "PowerVSImageScope \<Rightarrow>
     (ImageReference option \<times> JobReference option \<times> error option) res \<times> PowerVSImageScope" where
  "CreateImageCOSBucket i =
     (let m = ObjectMeta (IBMPowerVSImage i) in
      case ensureImageUnique (Name m) i of
        (Panic, i1) \<Rightarrow> (Panic, i1)
      | (Return (imageReply, err), i1) \<Rightarrow>
          if err \<noteq> None then
            (case Option.bind imageReply ImageReference_Name of
               None \<Rightarrow> (Panic, i1)
             | Some n \<Rightarrow>
                 (Return (None, None, err),
                  record_Warnf ''FailedRetriveImage'' ''Failed to retrieve image %q'' [n] i1))
          else if imageReply \<noteq> None then
            (let i2 = Info ''Image already exists'' i1 in
             case Option.bind imageReply ImageReference_Name of
               None \<Rightarrow> (Panic, i2)
             | Some n \<Rightarrow>
                 (Return (imageReply, None, None),
                  record_Eventf ''SuccessfulRetriveImage'' ''Retrieved Image %q'' [n] i2))
          else
            (case GetImportJob i1 of ((lastJob, _), i2) \<Rightarrow>
               (case lastJob of
                  None \<Rightarrow> submitImportJob i i2
                | Some job \<Rightarrow>
                    (case Option.bind (Job_Status job) Status_State of
                       None \<Rightarrow> (Panic, i2)
                     | Some st \<Rightarrow>
                         if st \<noteq> ''completed'' \<and> st \<noteq> ''failed'' then
                           (Return (None, None, None),
                            Info (''Previous import job not yet fininshed - '' @ st) i2)
                         else submitImportJob i i2))))"

definition DeleteImage :: "PowerVSImageScope \<Rightarrow> error option \<times> PowerVSImageScope" where
  "DeleteImage i =
     (let image_id = ImageID (Status (IBMPowerVSImage i));
          i1 = send (CallDeleteImage image_id) i in
      case DeleteImage_req (IBMPowerVSClient i) image_id of
        Some err \<Rightarrow>
          (Some err, record_Warnf ''FailedDeleteImage'' ''Failed image deletion - %v'' [err] i1)
      | None \<Rightarrow>
          (None, record_Eventf ''SuccessfulDeleteImage'' ''Deleted Image %q'' [image_id] i1))"

definition DeleteImportJob :: "PowerVSImageScope \<Rightarrow> error option \<times> PowerVSImageScope" where
  "DeleteImportJob i =
     (let job_id = JobID (Status (IBMPowerVSImage i));
          i1 = send (CallDeleteJob job_id) i in
      case DeleteJob_req (IBMPowerVSClient i) job_id of
        Some err \<Rightarrow>
          (Some err,
           record_Warnf ''FailedDeleteImageImoprtJob'' ''Failed image import job deletion - %v'' [err] i1)
      | None \<Rightarrow>
          (None,
           record_Eventf ''SuccessfulDeleteImageImoprtJob'' ''Deleted image import job %q'' [job_id] i1))"

text \<open>The accessors of the status. They change the resource in memory only.\<close>

definition on_status ::
  "(IBMPowerVSImageStatus \<Rightarrow> IBMPowerVSImageStatus) \<Rightarrow> PowerVSImageScope \<Rightarrow> PowerVSImageScope" where
  "on_status f i = i\<lparr>IBMPowerVSImage := (IBMPowerVSImage i)\<lparr>Status := f (Status (IBMPowerVSImage i))\<rparr>\<rparr>"

definition SetReady :: "PowerVSImageScope \<Rightarrow> PowerVSImageScope" where
  "SetReady i = on_status (\<lambda>st. st\<lparr>Ready := True\<rparr>) i"

definition SetNotReady :: "PowerVSImageScope \<Rightarrow> PowerVSImageScope" where
  "SetNotReady i = on_status (\<lambda>st. st\<lparr>Ready := False\<rparr>) i"

definition IsReady :: "PowerVSImageScope \<Rightarrow> bool" where
  "IsReady i = Ready (Status (IBMPowerVSImage i))"

definition SetImageID :: "string option \<Rightarrow> PowerVSImageScope \<Rightarrow> PowerVSImageScope" where
  "SetImageID id' i =
     (case id' of
        Some v \<Rightarrow> on_status (\<lambda>st. st\<lparr>ImageID := v\<rparr>) i
      | None \<Rightarrow> i)"

definition GetImageID :: "PowerVSImageScope \<Rightarrow> string" where
  "GetImageID i = ImageID (Status (IBMPowerVSImage i))"

definition SetImageState :: "string \<Rightarrow> PowerVSImageScope \<Rightarrow> PowerVSImageScope" where
  "SetImageState status i = on_status (\<lambda>st. st\<lparr>ImageState := status\<rparr>) i"

definition GetImageState :: "PowerVSImageScope \<Rightarrow> string" where
  "GetImageState i = ImageState (Status (IBMPowerVSImage i))"

definition SetJobID :: "string \<Rightarrow> PowerVSImageScope \<Rightarrow> PowerVSImageScope" where
  "SetJobID id' i = on_status (\<lambda>st. st\<lparr>JobID := id'\<rparr>) i"

definition GetJobID :: "PowerVSImageScope \<Rightarrow> string" where
  "GetJobID i = JobID (Status (IBMPowerVSImage i))"

section \<open>Notions used to state the properties\<close>

text \<open>
  An entry of the remote listing that the loop of \<^verbatim>\<open>ensureImageUnique\<close> passes over:
  a record with a name, and the name is not the one looked for.
\<close>

definition otherName :: "string \<Rightarrow> ImageReference option \<Rightarrow> bool" where
  "otherName imageName r =
     (case r of
        None \<Rightarrow> False
      | Some img \<Rightarrow> (case ImageReference_Name img of None \<Rightarrow> False | Some n \<Rightarrow> n \<noteq> imageName))"

text \<open>The keys of the import-job queries among the requests, and the bodies of the job creations.\<close>

fun jobQueries :: "call list \<Rightarrow> string list" where
  "jobQueries [] = []"
| "jobQueries (CallGetCosImages k # cs) = k # jobQueries cs"
| "jobQueries (c # cs) = jobQueries cs"

fun createCalls :: "call list \<Rightarrow> CreateCosImageImportJob list" where
  "createCalls [] = []"
| "createCalls (CallCreateCosImage body # cs) = body # createCalls cs"
| "createCalls (c # cs) = createCalls cs"

text \<open>The import request of a scope, with the bucket access written out.\<close>

definition importBody :: "PowerVSImageScope \<Rightarrow> CreateCosImageImportJob" where
  "importBody i =
     \<lparr>ImportImageName = Some (Name (ObjectMeta (IBMPowerVSImage i))),
      ImportBucketName = Bucket (Spec (IBMPowerVSImage i)),
      ImportBucketAccess = Some ''public'',
      ImportRegion = Region (Spec (IBMPowerVSImage i)),
      ImportImageFilename = Object (Spec (IBMPowerVSImage i)),
      ImportStorageType = StorageType (Spec (IBMPowerVSImage i))\<rparr>"

text \<open>The equivalence between readiness and a stored image identity.\<close>

definition status_inv :: "PowerVSImageScope \<Rightarrow> bool" where
  "status_inv i = (Ready (Status (IBMPowerVSImage i)) = (ImageID (Status (IBMPowerVSImage i)) \<noteq> ''''))"

subsection \<open>A resource and remote services to run the operations on\<close>

definition image0 :: IBMPowerVSImage where
  "image0 =
     \<lparr>ObjectMeta = \<lparr>Name = ''img-a''\<rparr>,
      Spec = \<lparr>ServiceInstanceID = ''svc-1'', Bucket = Some ''b1'', Object = Some ''o1'',
              Region = Some ''us-south'', StorageType = ''tier1''\<rparr>,
      Status = \<lparr>Ready = False, ImageID = '''', ImageState = '''', JobID = ''job-7''\<rparr>\<rparr>"

text \<open>
  A remote service with fixed answers. It knows the import job of the service instance
  \<open>svc-1\<close> only.
\<close>

definition fakePowerVS ::
  "Images option \<times> error option \<Rightarrow> Job option \<times> error option \<Rightarrow>
   JobReference option \<times> error option \<Rightarrow> error option \<Rightarrow> PowerVS" where
  "fakePowerVS listing job created deleted =
     \<lparr>GetAllImage = listing,
      GetCosImages = (\<lambda>k. if k = ''svc-1'' then job else (None, Some ''job not found'')),
      CreateCosImage = (\<lambda>body. created),
      DeleteImage_req = (\<lambda>k. deleted),
      DeleteJob_req = (\<lambda>k. deleted)\<rparr>"

definition scope0 :: "PowerVS \<Rightarrow> PowerVSImageScope" where
  "scope0 c = \<lparr>IBMPowerVSClient = c, IBMPowerVSImage = image0, requests = [], events = [], logged = []\<rparr>"

definition imageRef :: "string \<Rightarrow> string \<Rightarrow> ImageReference" where
  "imageRef n k = \<lparr>ImageReference_ImageID = Some k, ImageReference_Name = Some n\<rparr>"

definition jobInState :: "string \<Rightarrow> Job" where
  "jobInState st = \<lparr>Job_ID = Some ''job-7'', Job_Status = Some \<lparr>Status_State = Some st\<rparr>\<rparr>"

text \<open>The scopes the operations are run on below.\<close>

definition scope_listing_down :: PowerVSImageScope where
  "scope_listing_down =
     scope0 (fakePowerVS (None, Some ''connection refused'') (None, None) (None, None) None)"

definition scope_fresh :: PowerVSImageScope where
  "scope_fresh =
     scope0 (fakePowerVS (Some \<lparr>Images_Images = []\<rparr>, None) (None, None)
       (Some \<lparr>JobReference_ID = Some ''job-8''\<rparr>, None) None)"

definition scope_existing :: PowerVSImageScope where
  "scope_existing =
     scope0 (fakePowerVS
       (Some \<lparr>Images_Images = [Some (imageRef ''img-b'' ''456''), Some (imageRef ''img-a'' ''123''),
                                Some (imageRef ''img-a'' ''789'')]\<rparr>, None)
       (None, None) (None, None) None)"

definition scope_job :: "string \<Rightarrow> PowerVSImageScope" where
  "scope_job st =
     scope0 (fakePowerVS (Some \<lparr>Images_Images = [Some (imageRef ''img-b'' ''456'')]\<rparr>, None)
       (Some (jobInState st), None) (Some \<lparr>JobReference_ID = Some ''job-8''\<rparr>, None) None)"

definition scope_job_unknown :: PowerVSImageScope where
  "scope_job_unknown =
     scope0 (fakePowerVS (Some \<lparr>Images_Images = []\<rparr>, None) (None, Some ''gateway timeout'')
       (Some \<lparr>JobReference_ID = Some ''job-8''\<rparr>, None) None)"

definition scope_delete_fails :: PowerVSImageScope where
  "scope_delete_fails =
     SetImageID (Some ''123'')
       (scope0 (fakePowerVS (None, None) (None, None) (None, None) (Some ''timeout'')))"

lemmas fake_defs =
  fakePowerVS_def scope0_def image0_def imageRef_def jobInState_def scope_listing_down_def
  scope_fresh_def scope_existing_def scope_job_def scope_job_unknown_def scope_delete_fails_def

section \<open>Auxiliary facts\<close>

text \<open>
  The loop finds nothing exactly when every entry is a record with another name, and it
  returns the first entry of the name looked for when the entries before it are such.
\<close>

lemma scanImages_no_match:
  "scanImages n imgs = Return (None, None) \<longleftrightarrow> list_all (otherName n) imgs"
  by (induction n imgs rule: scanImages.induct) (auto simp: otherName_def split: option.splits)

lemma scanImages_first_match:
  "list_all (otherName n) pre \<Longrightarrow> ImageReference_Name img = Some n \<Longrightarrow>
   scanImages n (pre @ Some img # post) = Return (Some img, None)"
  by (induction n pre rule: scanImages.induct) (auto simp: otherName_def split: option.splits)

lemma ensureImageUnique_error:
  "snd (GetAllImage (IBMPowerVSClient i)) = Some e \<Longrightarrow>
   ensureImageUnique n i = (Return (None, Some e), send CallGetAllImage i)"
  by (cases "GetAllImage (IBMPowerVSClient i)") (simp add: ensureImageUnique_def)

lemma ensureImageUnique_listing:
  "GetAllImage (IBMPowerVSClient i) = (Some imgs, None) \<Longrightarrow>
   ensureImageUnique n i = (scanImages n (Images_Images imgs), send CallGetAllImage i)"
  by (simp add: ensureImageUnique_def)

lemma send_fields [simp]:
  "requests (send c i) = requests i @ [c]"
  "events (send c i) = events i"
  "logged (send c i) = logged i"
  "IBMPowerVSImage (send c i) = IBMPowerVSImage i"
  "IBMPowerVSClient (send c i) = IBMPowerVSClient i"
  by (simp_all add: send_def)

lemma Info_fields [simp]:
  "requests (Info m i) = requests i"
  "events (Info m i) = events i"
  "logged (Info m i) = logged i @ [m]"
  "IBMPowerVSImage (Info m i) = IBMPowerVSImage i"
  "IBMPowerVSClient (Info m i) = IBMPowerVSClient i"
  by (simp_all add: Info_def)

lemma record_Warnf_fields [simp]:
  "requests (record_Warnf r m a i) = requests i"
  "events (record_Warnf r m a i) = events i @ [Warnf r m a]"
  "logged (record_Warnf r m a i) = logged i"
  "IBMPowerVSImage (record_Warnf r m a i) = IBMPowerVSImage i"
  "IBMPowerVSClient (record_Warnf r m a i) = IBMPowerVSClient i"
  by (simp_all add: record_Warnf_def)

lemma record_Eventf_fields [simp]:
  "requests (record_Eventf r m a i) = requests i"
  "events (record_Eventf r m a i) = events i @ [Eventf r m a]"
  "logged (record_Eventf r m a i) = logged i"
  "IBMPowerVSImage (record_Eventf r m a i) = IBMPowerVSImage i"
  "IBMPowerVSClient (record_Eventf r m a i) = IBMPowerVSClient i"
  by (simp_all add: record_Eventf_def)

lemma submitImportJob_requests:
  "requests (snd (submitImportJob i0 i)) = requests i @ [CallCreateCosImage (importBody i0)]"
  by (simp add: submitImportJob_def importBody_def BucketAccess_def Let_def
      split: prod.splits option.splits)

lemma submitImportJob_image:
  "IBMPowerVSImage (snd (submitImportJob i0 i)) = IBMPowerVSImage i"
  by (simp add: submitImportJob_def Let_def split: prod.splits option.splits)

lemma submitImportJob_result:
  "fst (submitImportJob i0 i) =
     (case CreateCosImage (IBMPowerVSClient i0) (importBody i0) of
        (jobRef, Some e) \<Rightarrow> Return (None, None, Some e)
      | (jobRef, None) \<Rightarrow>
          (case Option.bind jobRef JobReference_ID of
             None \<Rightarrow> Panic
           | Some job_id \<Rightarrow> Return (None, jobRef, None)))"
  by (simp add: submitImportJob_def importBody_def BucketAccess_def Let_def
      split: prod.splits option.splits)

lemma submitImportJob_not_both:
  "fst (submitImportJob i0 i) = Return (img, job, err) \<Longrightarrow> img = None"
  by (auto simp: submitImportJob_result split: prod.splits option.splits)

text \<open>
  When the listing succeeds and every entry carries another name, the method goes on to
  the import job of the service instance.
\<close>

lemma CreateImageCOSBucket_no_match:
  assumes "GetAllImage (IBMPowerVSClient i) = (Some imgs, None)"
    and "list_all (otherName (Name (ObjectMeta (IBMPowerVSImage i)))) (Images_Images imgs)"
  shows "CreateImageCOSBucket i =
     (let i2 = send (CallGetCosImages (ServiceInstanceID (Spec (IBMPowerVSImage i)))) (send CallGetAllImage i) in
      case fst (GetCosImages (IBMPowerVSClient i) (ServiceInstanceID (Spec (IBMPowerVSImage i)))) of
        None \<Rightarrow> submitImportJob i i2
      | Some job \<Rightarrow>
          (case Option.bind (Job_Status job) Status_State of
             None \<Rightarrow> (Panic, i2)
           | Some st \<Rightarrow>
               if st \<noteq> ''completed'' \<and> st \<noteq> ''failed'' then
                 (Return (None, None, None), Info (''Previous import job not yet fininshed - '' @ st) i2)
               else submitImportJob i i2))"
proof -
  have "scanImages (Name (ObjectMeta (IBMPowerVSImage i))) (Images_Images imgs) = Return (None, None)"
    using assms(2) by (simp add: scanImages_no_match)
  then show ?thesis
    using assms(1)
    by (simp add: CreateImageCOSBucket_def ensureImageUnique_listing GetImportJob_def Let_def
        split: prod.splits)
qed

lemma jobQueries_append [simp]: "jobQueries (xs @ ys) = jobQueries xs @ jobQueries ys"
  by (induction xs rule: jobQueries.induct) simp_all

lemma createCalls_append [simp]: "createCalls (xs @ ys) = createCalls xs @ createCalls ys"
  by (induction xs rule: createCalls.induct) simp_all

lemma CreateImageCOSBucket_listing_error:
  "snd (GetAllImage (IBMPowerVSClient i)) = Some e \<Longrightarrow>
   CreateImageCOSBucket i = (Panic, send CallGetAllImage i)"
  by (simp add: CreateImageCOSBucket_def ensureImageUnique_error)

lemma CreateImageCOSBucket_submits:
  assumes "GetAllImage (IBMPowerVSClient i) = (Some imgs, None)"
    and "list_all (otherName (Name (ObjectMeta (IBMPowerVSImage i)))) (Images_Images imgs)"
    and "fst (GetCosImages (IBMPowerVSClient i) (ServiceInstanceID (Spec (IBMPowerVSImage i)))) = None \<or>
         (\<exists>job st. fst (GetCosImages (IBMPowerVSClient i) (ServiceInstanceID (Spec (IBMPowerVSImage i)))) = Some job \<and>
            Option.bind (Job_Status job) Status_State = Some st \<and> (st = ''completed'' \<or> st = ''failed''))"
  shows "CreateImageCOSBucket i =
     submitImportJob i
       (send (CallGetCosImages (ServiceInstanceID (Spec (IBMPowerVSImage i)))) (send CallGetAllImage i))"
  using assms(3) by (auto simp: CreateImageCOSBucket_no_match [OF assms(1,2)] Let_def)

section \<open>Properties of the import lifecycle\<close>

subsection \<open>Failure of the listing\<close>

text \<open>
  Claim C1 says that \<^verbatim>\<open>CreateImageCOSBucket\<close>, when the listing of the remote images
  fails, records one warning, returns the error and leaves the status as it is. The
  method does not get that far. \<^verbatim>\<open>ensureImageUnique\<close> returns a nil image with the
  error, and the arguments of the warning dereference that image
  (\<^verbatim>\<open>*imageReply.Name\<close>): run on a service whose listing answers
  \<open>connection refused\<close>, the method panics after the listing request, with no event
  recorded, no error returned and the resource untouched.
\<close>

theorem CreateImageCOSBucket_listing_failure_panics:
  "CreateImageCOSBucket scope_listing_down =
     (Panic, scope_listing_down\<lparr>requests := [CallGetAllImage]\<rparr>) \<and>
   events (snd (CreateImageCOSBucket scope_listing_down)) = [] \<and>
   IBMPowerVSImage (snd (CreateImageCOSBucket scope_listing_down)) = image0"
proof -
  have "snd (GetAllImage (IBMPowerVSClient scope_listing_down)) = Some ''connection refused''"
    by (simp add: fake_defs)
  then have "CreateImageCOSBucket scope_listing_down = (Panic, send CallGetAllImage scope_listing_down)"
    by (rule CreateImageCOSBucket_listing_error)
  then show ?thesis
    by (simp add: send_def fake_defs)
qed

subsection \<open>Readiness and the image identity\<close>

text \<open>
  Claim C2 as stated, that in every state the scope's operations reach the resource is
  ready if and only if its image identity is not empty, fails: on a resource that is not
  ready and has no image identity, where the equivalence holds, \<^verbatim>\<open>SetReady\<close> gives a
  resource that is ready and still has no image identity.
\<close>

theorem status_invariant_counterexample:
  "status_inv scope_fresh \<and>
   IsReady (SetReady scope_fresh) \<and> GetImageID (SetReady scope_fresh) = '''' \<and>
   \<not> status_inv (SetReady scope_fresh)"
  by (simp add: status_inv_def SetReady_def IsReady_def GetImageID_def on_status_def fake_defs)

text \<open>
  Claim C2, amended. The accessors write \<open>Status.Ready\<close> and \<open>Status.ImageID\<close>
  independently of each other. The equivalence of readiness and a non-empty image
  identity is kept by \<^verbatim>\<open>SetImageState\<close>, \<^verbatim>\<open>SetJobID\<close>, \<^verbatim>\<open>SetImageID\<close> with a
  nil pointer, \<^verbatim>\<open>DeleteImage\<close> and \<^verbatim>\<open>DeleteImportJob\<close>: it holds after them if and
  only if it held before. After \<^verbatim>\<open>SetReady\<close> it holds exactly when the image identity
  is not empty, after \<^verbatim>\<open>SetNotReady\<close> exactly when the image identity is empty, and
  after \<^verbatim>\<open>SetImageID\<close> with a pointer to \<open>v\<close> exactly when the resource is ready if
  and only if \<open>v\<close> is not empty.
\<close>

theorem status_fields_independent:
  "status_inv (SetReady i) = (ImageID (Status (IBMPowerVSImage i)) \<noteq> '''') \<and>
   status_inv (SetNotReady i) = (ImageID (Status (IBMPowerVSImage i)) = '''') \<and>
   status_inv (SetImageID (Some v) i) = (Ready (Status (IBMPowerVSImage i)) = (v \<noteq> '''')) \<and>
   status_inv (SetImageID None i) = status_inv i \<and>
   status_inv (SetImageState s i) = status_inv i \<and>
   status_inv (SetJobID j i) = status_inv i \<and>
   status_inv (snd (DeleteImage i)) = status_inv i \<and>
   status_inv (snd (DeleteImportJob i)) = status_inv i"
  by (simp add: status_inv_def SetReady_def SetNotReady_def SetImageID_def SetImageState_def
      SetJobID_def on_status_def DeleteImage_def DeleteImportJob_def Let_def split: option.splits)

subsection \<open>The query for the last import job\<close>

text \<open>
  Claim C3 as stated, that the last import job is queried by the job identity stored in
  the status, fails: for a resource whose status holds the job identity \<open>job-7\<close> and
  whose spec names the service instance \<open>svc-1\<close>, with an empty remote listing, no
  request for the job \<open>job-7\<close> is sent; the only job query is keyed by \<open>svc-1\<close>.
\<close>

theorem job_query_by_job_id_counterexample:
  "GetJobID scope_fresh = ''job-7'' \<and>
   CallGetCosImages ''job-7'' \<notin> set (requests (snd (CreateImageCOSBucket scope_fresh))) \<and>
   jobQueries (requests (snd (CreateImageCOSBucket scope_fresh))) = [''svc-1'']"
  by (simp add: CreateImageCOSBucket_def ensureImageUnique_def GetImportJob_def submitImportJob_def
      GetJobID_def send_def Info_def record_Eventf_def Let_def fake_defs)

text \<open>
  Claim C3, amended. For every call of \<^verbatim>\<open>CreateImageCOSBucket\<close> in which the listing
  succeeds and no remote image has the resource's name, the last import job is queried
  once, by the service instance identity of the resource's spec. The job identity stored
  in the status is not consulted: storing another one changes neither what the call
  returns nor the requests it sends.
\<close>

theorem job_query_by_service_instance:
  assumes "GetAllImage (IBMPowerVSClient i) = (Some imgs, None)"
    and "list_all (otherName (Name (ObjectMeta (IBMPowerVSImage i)))) (Images_Images imgs)"
  shows "jobQueries (requests (snd (CreateImageCOSBucket i))) =
           jobQueries (requests i) @ [ServiceInstanceID (Spec (IBMPowerVSImage i))] \<and>
         fst (CreateImageCOSBucket (SetJobID j i)) = fst (CreateImageCOSBucket i) \<and>
         requests (snd (CreateImageCOSBucket (SetJobID j i))) = requests (snd (CreateImageCOSBucket i))"
proof -
  have q: "jobQueries (requests (snd (CreateImageCOSBucket i))) =
           jobQueries (requests i) @ [ServiceInstanceID (Spec (IBMPowerVSImage i))]"
    by (simp add: CreateImageCOSBucket_no_match [OF assms] Let_def submitImportJob_requests
        split: option.splits)
  have j: "GetAllImage (IBMPowerVSClient (SetJobID j i)) = (Some imgs, None)"
    "list_all (otherName (Name (ObjectMeta (IBMPowerVSImage (SetJobID j i))))) (Images_Images imgs)"
    using assms by (simp_all add: SetJobID_def on_status_def)
  have b: "importBody (SetJobID j i) = importBody i"
    by (simp add: importBody_def SetJobID_def on_status_def)
  have c: "IBMPowerVSClient (SetJobID j i) = IBMPowerVSClient i"
    "ServiceInstanceID (Spec (IBMPowerVSImage (SetJobID j i))) = ServiceInstanceID (Spec (IBMPowerVSImage i))"
    "requests (SetJobID j i) = requests i"
    by (simp_all add: SetJobID_def on_status_def)
  have r: "fst (CreateImageCOSBucket (SetJobID j i)) = fst (CreateImageCOSBucket i)"
    by (simp add: CreateImageCOSBucket_no_match [OF assms] CreateImageCOSBucket_no_match [OF j]
        Let_def submitImportJob_result b c split: option.splits)
  have s: "requests (snd (CreateImageCOSBucket (SetJobID j i))) = requests (snd (CreateImageCOSBucket i))"
    by (simp add: CreateImageCOSBucket_no_match [OF assms] CreateImageCOSBucket_no_match [OF j]
        Let_def submitImportJob_requests b c split: option.splits)
  from q r s show ?thesis by simp
qed

text \<open>
  The amended claim at work: with the job identity \<open>job-7\<close> or \<open>job-99\<close> in the
  status, the job query of the resource above goes to \<open>svc-1\<close> and a job reference is
  returned.
\<close>

theorem job_query_by_service_instance_witness:
  "jobQueries (requests (snd (CreateImageCOSBucket scope_fresh))) = [''svc-1''] \<and>
   fst (CreateImageCOSBucket (SetJobID ''job-99'' scope_fresh)) =
     Return (None, Some \<lparr>JobReference_ID = Some ''job-8''\<rparr>, None)"
proof -
  have h1: "GetAllImage (IBMPowerVSClient scope_fresh) = (Some \<lparr>Images_Images = []\<rparr>, None)"
    by (simp add: fake_defs)
  have h2: "list_all (otherName (Name (ObjectMeta (IBMPowerVSImage scope_fresh))))
      (Images_Images \<lparr>Images_Images = []\<rparr>)"
    by simp
  have r: "fst (CreateImageCOSBucket scope_fresh) =
      Return (None, Some \<lparr>JobReference_ID = Some ''job-8''\<rparr>, None)"
    by (simp add: CreateImageCOSBucket_def ensureImageUnique_def GetImportJob_def submitImportJob_def
        Let_def fake_defs)
  show ?thesis
    using job_query_by_service_instance [OF h1 h2, of "''job-99''"] r
    by (simp add: fake_defs)
qed

subsection \<open>An import job in flight\<close>

text \<open>
  Claim C4. For every call of \<^verbatim>\<open>CreateImageCOSBucket\<close> in which the listing succeeds
  with no image of the resource's name (every entry being a record with another name)
  and the fetched import job has a state other than \<open>completed\<close> and \<open>failed\<close>, such
  as \<open>in-progress\<close>, the call returns a nil image, a nil job and a nil error, and
  sends the listing request and the job query only: no job creation is requested, no
  event is recorded and the resource is unchanged.
\<close>

theorem in_flight_job_suppresses_creation:
  assumes "GetAllImage (IBMPowerVSClient i) = (Some imgs, None)"
    and "list_all (otherName (Name (ObjectMeta (IBMPowerVSImage i)))) (Images_Images imgs)"
    and "fst (GetCosImages (IBMPowerVSClient i) (ServiceInstanceID (Spec (IBMPowerVSImage i)))) = Some job"
    and "Job_Status job = Some js"
    and "Status_State js = Some st"
    and "st \<noteq> ''completed''"
    and "st \<noteq> ''failed''"
  shows "fst (CreateImageCOSBucket i) = Return (None, None, None) \<and>
         requests (snd (CreateImageCOSBucket i)) =
           requests i @ [CallGetAllImage, CallGetCosImages (ServiceInstanceID (Spec (IBMPowerVSImage i)))] \<and>
         createCalls (requests (snd (CreateImageCOSBucket i))) = createCalls (requests i) \<and>
         events (snd (CreateImageCOSBucket i)) = events i \<and>
         IBMPowerVSImage (snd (CreateImageCOSBucket i)) = IBMPowerVSImage i"
  using assms(3-7) by (simp add: CreateImageCOSBucket_no_match [OF assms(1,2)])

theorem in_flight_job_suppresses_creation_witness:
  "fst (CreateImageCOSBucket (scope_job ''in-progress'')) = Return (None, None, None) \<and>
   requests (snd (CreateImageCOSBucket (scope_job ''in-progress''))) =
     [CallGetAllImage, CallGetCosImages ''svc-1''] \<and>
   createCalls (requests (snd (CreateImageCOSBucket (scope_job ''in-progress'')))) = []"
proof -
  let ?i = "scope_job ''in-progress''"
  have h1: "GetAllImage (IBMPowerVSClient ?i) =
      (Some \<lparr>Images_Images = [Some (imageRef ''img-b'' ''456'')]\<rparr>, None)"
    by (simp add: fake_defs)
  have h2: "list_all (otherName (Name (ObjectMeta (IBMPowerVSImage ?i))))
      (Images_Images \<lparr>Images_Images = [Some (imageRef ''img-b'' ''456'')]\<rparr>)"
    by (simp add: fake_defs otherName_def)
  have h3: "fst (GetCosImages (IBMPowerVSClient ?i) (ServiceInstanceID (Spec (IBMPowerVSImage ?i)))) =
      Some (jobInState ''in-progress'')"
    by (simp add: fake_defs)
  have h4: "Job_Status (jobInState ''in-progress'') = Some \<lparr>Status_State = Some ''in-progress''\<rparr>"
    by (simp add: fake_defs)
  have h5: "Status_State \<lparr>Status_State = Some ''in-progress''\<rparr> = Some ''in-progress''"
    by simp
  have h6: "''in-progress'' \<noteq> ''completed''" "''in-progress'' \<noteq> ''failed''"
    by simp_all
  show ?thesis
    using in_flight_job_suppresses_creation [OF h1 h2 h3 h4 h5 h6]
    by (simp add: fake_defs)
qed

subsection \<open>An image of the resource's name exists\<close>

text \<open>
  Claim C5. For every call of \<^verbatim>\<open>CreateImageCOSBucket\<close> in which the listing succeeds
  and holds an image of the resource's name, the entries before the first such image
  being records with other names, the call returns that first image with a nil job and
  a nil error, sends the listing request only, so that no job creation is requested,
  and records one event, the success event \<open>SuccessfulRetriveImage\<close>.
\<close>

theorem existing_image_short_circuit:
  assumes "GetAllImage (IBMPowerVSClient i) = (Some imgs, None)"
    and "Images_Images imgs = pre @ Some img # post"
    and "list_all (otherName (Name (ObjectMeta (IBMPowerVSImage i)))) pre"
    and "ImageReference_Name img = Some (Name (ObjectMeta (IBMPowerVSImage i)))"
  shows "CreateImageCOSBucket i =
           (Return (Some img, None, None),
            i\<lparr>requests := requests i @ [CallGetAllImage],
              events := events i @ [Eventf ''SuccessfulRetriveImage'' ''Retrieved Image %q''
                                      [Name (ObjectMeta (IBMPowerVSImage i))]],
              logged := logged i @ [''Image already exists'']\<rparr>) \<and>
         createCalls (requests (snd (CreateImageCOSBucket i))) = createCalls (requests i)"
proof -
  have "scanImages (Name (ObjectMeta (IBMPowerVSImage i))) (Images_Images imgs) = Return (Some img, None)"
    using assms(2-4) by (simp add: scanImages_first_match)
  then have "CreateImageCOSBucket i =
           (Return (Some img, None, None),
            i\<lparr>requests := requests i @ [CallGetAllImage],
              events := events i @ [Eventf ''SuccessfulRetriveImage'' ''Retrieved Image %q''
                                      [Name (ObjectMeta (IBMPowerVSImage i))]],
              logged := logged i @ [''Image already exists'']\<rparr>)"
    using assms(1,4)
    by (simp add: CreateImageCOSBucket_def ensureImageUnique_listing Let_def send_def Info_def
        record_Eventf_def)
  then show ?thesis by simp
qed

text \<open>
  The listing holds \<open>img-b\<close> and then two images named \<open>img-a\<close>, with the identities
  \<open>123\<close> and \<open>789\<close>: the one of identity \<open>123\<close> is returned.
\<close>

theorem existing_image_short_circuit_witness:
  "CreateImageCOSBucket scope_existing =
     (Return (Some (imageRef ''img-a'' ''123''), None, None),
      scope_existing
        \<lparr>requests := [CallGetAllImage],
         events := [Eventf ''SuccessfulRetriveImage'' ''Retrieved Image %q'' [''img-a'']],
         logged := [''Image already exists'']\<rparr>)"
proof -
  let ?imgs = "\<lparr>Images_Images = [Some (imageRef ''img-b'' ''456''), Some (imageRef ''img-a'' ''123''),
                                 Some (imageRef ''img-a'' ''789'')]\<rparr>"
  have h1: "GetAllImage (IBMPowerVSClient scope_existing) = (Some ?imgs, None)"
    by (simp add: fake_defs)
  have h2: "Images_Images ?imgs =
      [Some (imageRef ''img-b'' ''456'')] @ Some (imageRef ''img-a'' ''123'') # [Some (imageRef ''img-a'' ''789'')]"
    by simp
  have h3: "list_all (otherName (Name (ObjectMeta (IBMPowerVSImage scope_existing))))
      [Some (imageRef ''img-b'' ''456'')]"
    by (simp add: fake_defs otherName_def)
  have h4: "ImageReference_Name (imageRef ''img-a'' ''123'') =
      Some (Name (ObjectMeta (IBMPowerVSImage scope_existing)))"
    by (simp add: fake_defs)
  show ?thesis
    using existing_image_short_circuit [OF h1 h2 h3 h4] by (simp add: fake_defs)
qed

subsection \<open>A finished import job\<close>

text \<open>
  Claim C6. For every call of \<^verbatim>\<open>CreateImageCOSBucket\<close> in which the listing succeeds
  with no image of the resource's name (every entry being a record with another name)
  and the fetched import job has the state \<open>failed\<close> or \<open>completed\<close>, the call goes
  on to request the creation of an import job. The request carries the resource's name
  and the bucket, object, region and storage type of its spec, and the bucket access
  \<open>public\<close>; what the call returns is decided by the answer to that request.
\<close>

theorem terminal_job_submits_import:
  assumes "GetAllImage (IBMPowerVSClient i) = (Some imgs, None)"
    and "list_all (otherName (Name (ObjectMeta (IBMPowerVSImage i)))) (Images_Images imgs)"
    and "fst (GetCosImages (IBMPowerVSClient i) (ServiceInstanceID (Spec (IBMPowerVSImage i)))) = Some job"
    and "Job_Status job = Some js"
    and "Status_State js = Some st"
    and "st = ''failed'' \<or> st = ''completed''"
  shows "requests (snd (CreateImageCOSBucket i)) =
           requests i @
             [CallGetAllImage,
              CallGetCosImages (ServiceInstanceID (Spec (IBMPowerVSImage i))),
              CallCreateCosImage
                \<lparr>ImportImageName = Some (Name (ObjectMeta (IBMPowerVSImage i))),
                 ImportBucketName = Bucket (Spec (IBMPowerVSImage i)),
                 ImportBucketAccess = Some ''public'',
                 ImportRegion = Region (Spec (IBMPowerVSImage i)),
                 ImportImageFilename = Object (Spec (IBMPowerVSImage i)),
                 ImportStorageType = StorageType (Spec (IBMPowerVSImage i))\<rparr>] \<and>
         fst (CreateImageCOSBucket i) =
           (case CreateCosImage (IBMPowerVSClient i) (importBody i) of
              (jobRef, Some e) \<Rightarrow> Return (None, None, Some e)
            | (jobRef, None) \<Rightarrow>
                (case Option.bind jobRef JobReference_ID of
                   None \<Rightarrow> Panic
                 | Some job_id \<Rightarrow> Return (None, jobRef, None)))"
proof -
  have "\<exists>job st.
      fst (GetCosImages (IBMPowerVSClient i) (ServiceInstanceID (Spec (IBMPowerVSImage i)))) = Some job \<and>
      Option.bind (Job_Status job) Status_State = Some st \<and> (st = ''completed'' \<or> st = ''failed'')"
    using assms(3-6) by auto
  then have "CreateImageCOSBucket i =
     submitImportJob i
       (send (CallGetCosImages (ServiceInstanceID (Spec (IBMPowerVSImage i)))) (send CallGetAllImage i))"
    using CreateImageCOSBucket_submits [OF assms(1,2)] by simp
  then show ?thesis
    by (simp add: submitImportJob_requests submitImportJob_result importBody_def)
qed

theorem terminal_job_submits_import_witness:
  "requests (snd (CreateImageCOSBucket (scope_job ''failed''))) =
     [CallGetAllImage, CallGetCosImages ''svc-1'',
      CallCreateCosImage
        \<lparr>ImportImageName = Some ''img-a'', ImportBucketName = Some ''b1'',
         ImportBucketAccess = Some ''public'', ImportRegion = Some ''us-south'',
         ImportImageFilename = Some ''o1'', ImportStorageType = ''tier1''\<rparr>] \<and>
   fst (CreateImageCOSBucket (scope_job ''failed'')) =
     Return (None, Some \<lparr>JobReference_ID = Some ''job-8''\<rparr>, None)"
proof -
  let ?i = "scope_job ''failed''"
  have h1: "GetAllImage (IBMPowerVSClient ?i) =
      (Some \<lparr>Images_Images = [Some (imageRef ''img-b'' ''456'')]\<rparr>, None)"
    by (simp add: fake_defs)
  have h2: "list_all (otherName (Name (ObjectMeta (IBMPowerVSImage ?i))))
      (Images_Images \<lparr>Images_Images = [Some (imageRef ''img-b'' ''456'')]\<rparr>)"
    by (simp add: fake_defs otherName_def)
  have h3: "fst (GetCosImages (IBMPowerVSClient ?i) (ServiceInstanceID (Spec (IBMPowerVSImage ?i)))) =
      Some (jobInState ''failed'')"
    by (simp add: fake_defs)
  have h4: "Job_Status (jobInState ''failed'') = Some \<lparr>Status_State = Some ''failed''\<rparr>"
    by (simp add: fake_defs)
  have h5: "Status_State \<lparr>Status_State = Some ''failed''\<rparr> = Some ''failed''"
    by simp
  have h6: "''failed'' = ''failed'' \<or> ''failed'' = ''completed''"
    by simp
  show ?thesis
    using terminal_job_submits_import [OF h1 h2 h3 h4 h5 h6]
    by (simp add: fake_defs importBody_def)
qed

subsection \<open>The shape of the result\<close>

text \<open>
  Claim C7. Whenever \<^verbatim>\<open>CreateImageCOSBucket\<close> returns, the image reference or the
  job reference of the returned triple is nil: the two are never both set.
\<close>

theorem never_image_and_job:
  "fst (CreateImageCOSBucket i) = Return (img, job, err) \<Longrightarrow> img = None \<or> job = None"
proof -
  assume r: "fst (CreateImageCOSBucket i) = Return (img, job, err)"
  obtain x i1 where u: "ensureImageUnique (Name (ObjectMeta (IBMPowerVSImage i))) i = (x, i1)"
    by (metis surj_pair)
  obtain lastJob e i2 where g: "GetImportJob i1 = ((lastJob, e), i2)"
    by (metis surj_pair)
  show ?thesis
  proof (cases x)
    case Panic
    with r u show ?thesis by (simp add: CreateImageCOSBucket_def)
  next
    case (Return p)
    obtain imageReply err0 where p: "p = (imageReply, err0)" by (cases p)
    show ?thesis
    proof (cases "err0 \<noteq> None \<or> imageReply \<noteq> None")
      case True
      with r u Return p show ?thesis
        by (auto simp: CreateImageCOSBucket_def Let_def split: option.splits if_splits)
    next
      case False
      with r u Return p g have "img = None"
        by (auto simp: CreateImageCOSBucket_def Let_def
            split: option.splits if_splits dest: submitImportJob_not_both)
      then show ?thesis by simp
    qed
  qed
qed

theorem never_image_and_job_witness:
  "fst (CreateImageCOSBucket scope_fresh) =
     Return (None, Some \<lparr>JobReference_ID = Some ''job-8''\<rparr>, None) \<and>
   ((None :: ImageReference option) = None \<or> Some \<lparr>JobReference_ID = Some ''job-8''\<rparr> = None)"
proof -
  have h: "fst (CreateImageCOSBucket scope_fresh) =
      Return (None, Some \<lparr>JobReference_ID = Some ''job-8''\<rparr>, None)"
    by (simp add: CreateImageCOSBucket_def ensureImageUnique_def GetImportJob_def submitImportJob_def
        Let_def fake_defs)
  show ?thesis
    using never_image_and_job [OF h] h by simp
qed

subsection \<open>Failed deletions\<close>

text \<open>
  Claim C8. When the remote deletion of the image fails, \<^verbatim>\<open>DeleteImage\<close> records one
  warning, returns the error and leaves the resource, with \<open>Status.ImageID\<close> and every
  other field of its status, unchanged; when the remote deletion of the import job fails,
  \<^verbatim>\<open>DeleteImportJob\<close> does the same, leaving \<open>Status.JobID\<close> and every other field
  unchanged. Beside the warning, only the deletion request is added to the scope.
\<close>

theorem failed_delete_keeps_status:
  "(DeleteImage_req (IBMPowerVSClient i) (ImageID (Status (IBMPowerVSImage i))) = Some e \<longrightarrow>
      DeleteImage i =
        (Some e,
         i\<lparr>requests := requests i @ [CallDeleteImage (ImageID (Status (IBMPowerVSImage i)))],
           events := events i @ [Warnf ''FailedDeleteImage'' ''Failed image deletion - %v'' [e]]\<rparr>) \<and>
      IBMPowerVSImage (snd (DeleteImage i)) = IBMPowerVSImage i) \<and>
   (DeleteJob_req (IBMPowerVSClient i) (JobID (Status (IBMPowerVSImage i))) = Some e' \<longrightarrow>
      DeleteImportJob i =
        (Some e',
         i\<lparr>requests := requests i @ [CallDeleteJob (JobID (Status (IBMPowerVSImage i)))],
           events := events i @
             [Warnf ''FailedDeleteImageImoprtJob'' ''Failed image import job deletion - %v'' [e']]\<rparr>) \<and>
      IBMPowerVSImage (snd (DeleteImportJob i)) = IBMPowerVSImage i)"
  by (simp add: DeleteImage_def DeleteImportJob_def Let_def send_def record_Warnf_def)

theorem failed_delete_keeps_status_witness:
  "DeleteImage scope_delete_fails =
     (Some ''timeout'',
      scope_delete_fails
        \<lparr>requests := [CallDeleteImage ''123''],
         events := [Warnf ''FailedDeleteImage'' ''Failed image deletion - %v'' [''timeout'']]\<rparr>) \<and>
   GetImageID (snd (DeleteImage scope_delete_fails)) = ''123'' \<and>
   DeleteImportJob scope_delete_fails =
     (Some ''timeout'',
      scope_delete_fails
        \<lparr>requests := [CallDeleteJob ''job-7''],
         events := [Warnf ''FailedDeleteImageImoprtJob'' ''Failed image import job deletion - %v''
                      [''timeout'']]\<rparr>) \<and>
   GetJobID (snd (DeleteImportJob scope_delete_fails)) = ''job-7''"
proof -
  let ?i = "scope_delete_fails"
  have h1: "DeleteImage_req (IBMPowerVSClient ?i) (ImageID (Status (IBMPowerVSImage ?i))) = Some ''timeout''"
    by (simp add: fake_defs SetImageID_def on_status_def)
  have h2: "DeleteJob_req (IBMPowerVSClient ?i) (JobID (Status (IBMPowerVSImage ?i))) = Some ''timeout''"
    by (simp add: fake_defs SetImageID_def on_status_def)
  show ?thesis
    using failed_delete_keeps_status [of ?i "''timeout''" "''timeout''"] h1 h2
    by (simp add: fake_defs SetImageID_def on_status_def GetImageID_def GetJobID_def)
qed

subsection \<open>The accessor of the image identity\<close>

text \<open>
  Claim C9. \<^verbatim>\<open>SetImageID\<close> called with a nil pointer does not panic and returns the scope
  as it was, so \<open>Status.ImageID\<close> and every other field keep their values; called with a
  pointer to a string it overwrites \<open>Status.ImageID\<close> with that string and changes
  nothing else.
\<close>

theorem SetImageID_nil_noop:
  "SetImageID None i = i \<and>
   SetImageID (Some v) i =
     i\<lparr>IBMPowerVSImage := (IBMPowerVSImage i)\<lparr>Status := (Status (IBMPowerVSImage i))\<lparr>ImageID := v\<rparr>\<rparr>\<rparr> \<and>
   GetImageID (SetImageID (Some v) i) = v"
  by (simp add: SetImageID_def on_status_def GetImageID_def)

subsection \<open>An import job that cannot be fetched\<close>

text \<open>
  Claim C10. For every call of \<^verbatim>\<open>CreateImageCOSBucket\<close> in which the listing succeeds
  with no image of the resource's name (every entry being a record with another name)
  and \<^verbatim>\<open>GetImportJob\<close> returns a nil job with an error, the error is dropped: the call
  goes on to request the creation of an import job, and what it returns is decided by
  the answer to that request alone, the error of the fetch appearing nowhere in it.
\<close>

theorem job_fetch_error_discarded:
  assumes "GetAllImage (IBMPowerVSClient i) = (Some imgs, None)"
    and "list_all (otherName (Name (ObjectMeta (IBMPowerVSImage i)))) (Images_Images imgs)"
    and "GetCosImages (IBMPowerVSClient i) (ServiceInstanceID (Spec (IBMPowerVSImage i))) = (None, Some e)"
  shows "requests (snd (CreateImageCOSBucket i)) =
           requests i @
             [CallGetAllImage,
              CallGetCosImages (ServiceInstanceID (Spec (IBMPowerVSImage i))),
              CallCreateCosImage (importBody i)] \<and>
         fst (CreateImageCOSBucket i) =
           (case CreateCosImage (IBMPowerVSClient i) (importBody i) of
              (jobRef, Some e') \<Rightarrow> Return (None, None, Some e')
            | (jobRef, None) \<Rightarrow>
                (case Option.bind jobRef JobReference_ID of
                   None \<Rightarrow> Panic
                 | Some job_id \<Rightarrow> Return (None, jobRef, None)))"
proof -
  have "fst (GetCosImages (IBMPowerVSClient i) (ServiceInstanceID (Spec (IBMPowerVSImage i)))) = None"
    using assms(3) by simp
  then have "CreateImageCOSBucket i =
     submitImportJob i
       (send (CallGetCosImages (ServiceInstanceID (Spec (IBMPowerVSImage i)))) (send CallGetAllImage i))"
    using CreateImageCOSBucket_submits [OF assms(1,2)] by simp
  then show ?thesis
    by (simp add: submitImportJob_requests submitImportJob_result)
qed

theorem job_fetch_error_discarded_witness:
  "fst (CreateImageCOSBucket scope_job_unknown) =
     Return (None, Some \<lparr>JobReference_ID = Some ''job-8''\<rparr>, None) \<and>
   requests (snd (CreateImageCOSBucket scope_job_unknown)) =
     [CallGetAllImage, CallGetCosImages ''svc-1'',
      CallCreateCosImage
        \<lparr>ImportImageName = Some ''img-a'', ImportBucketName = Some ''b1'',
         ImportBucketAccess = Some ''public'', ImportRegion = Some ''us-south'',
         ImportImageFilename = Some ''o1'', ImportStorageType = ''tier1''\<rparr>]"
proof -
  let ?i = "scope_job_unknown"
  have h1: "GetAllImage (IBMPowerVSClient ?i) = (Some \<lparr>Images_Images = []\<rparr>, None)"
    by (simp add: fake_defs)
  have h2: "list_all (otherName (Name (ObjectMeta (IBMPowerVSImage ?i)))) (Images_Images \<lparr>Images_Images = []\<rparr>)"
    by simp
  have h3: "GetCosImages (IBMPowerVSClient ?i) (ServiceInstanceID (Spec (IBMPowerVSImage ?i))) =
      (None, Some ''gateway timeout'')"
    by (simp add: fake_defs)
  show ?thesis
    using job_fetch_error_discarded [OF h1 h2 h3] by (simp add: fake_defs importBody_def)
qed

end
